theory Spec2Isabelle
  imports Complex_Main "HOL-Library.Word"
begin

section \<open>Errors and values\<close>

text \<open>
  The Python exceptions the modelled code can raise. A function that may raise returns
  \<open>error + 'a\<close>, with \<open>Inl\<close> for the exception.
  Floating-point numbers are idealised as the reals throughout.
\<close>

datatype error = NotImplementedError | TypeError | ValueError | IndexError | ZeroDivisionError
  | OverflowError

text \<open>
  A float returned by numpy where the undefined result is \<open>nan\<close> (returned with a warning,
  not raised).
\<close>

datatype npfloat = Finite real | NaN

section \<open>utils/data\_utils.py\<close>

subsection \<open>mean\_squared\_error\<close>

text \<open>
  A Python or numpy float: a finite value, idealised as a real, an infinity or \<open>nan\<close>.
\<close>

datatype pyfloat = Fin real | PInf | NInf | FNaN

text \<open>The largest finite double, \<open>(2 - 2^-52) * 2^1023\<close>.\<close>

definition float_max :: real where
  "float_max = (2 ^ 53 - 1) * 2 ^ 971"

text \<open>
  The result of a float operation whose exact value is \<open>r\<close>: beyond the largest double it
  overflows to an infinity, silently.
\<close>

definition float_result :: "real \<Rightarrow> pyfloat" where
  "float_result r = (if r > float_max then PInf else if r < - float_max then NInf else Fin r)"

fun float_add :: "pyfloat \<Rightarrow> pyfloat \<Rightarrow> pyfloat" where
  "float_add FNaN _ = FNaN"
| "float_add _ FNaN = FNaN"
| "float_add PInf NInf = FNaN"
| "float_add NInf PInf = FNaN"
| "float_add PInf _ = PInf"
| "float_add _ PInf = PInf"
| "float_add NInf _ = NInf"
| "float_add _ NInf = NInf"
| "float_add (Fin a) (Fin b) = float_result (a + b)"

fun float_neg :: "pyfloat \<Rightarrow> pyfloat" where
  "float_neg (Fin a) = Fin (- a)"
| "float_neg PInf = NInf"
| "float_neg NInf = PInf"
| "float_neg FNaN = FNaN"

definition float_sub :: "pyfloat \<Rightarrow> pyfloat \<Rightarrow> pyfloat" where
  "float_sub a b = float_add a (float_neg b)"

text \<open>
  \<open>x ** 2\<close> on a numpy \<open>float64\<close>: an overflow gives \<open>inf\<close> (with a warning).
\<close>

fun float64_sq :: "pyfloat \<Rightarrow> error + pyfloat" where
  "float64_sq (Fin a) = Inr (float_result (a * a))"
| "float64_sq PInf = Inr PInf"
| "float64_sq NInf = Inr PInf"
| "float64_sq FNaN = Inr FNaN"

text \<open>
  \<open>x ** 2\<close> on a Python float: an overflow from a finite \<open>x\<close> raises OverflowError.
\<close>

fun pyfloat_sq :: "pyfloat \<Rightarrow> error + pyfloat" where
  "pyfloat_sq (Fin a) = (if a * a > float_max then Inl OverflowError else Inr (Fin (a * a)))"
| "pyfloat_sq PInf = Inr PInf"
| "pyfloat_sq NInf = Inr PInf"
| "pyfloat_sq FNaN = Inr FNaN"

text \<open>A float divided by a positive Python int.\<close>

fun float_truediv :: "pyfloat \<Rightarrow> nat \<Rightarrow> error + pyfloat" where
  "float_truediv (Fin a) n = Inr (Fin (a / real n))"
| "float_truediv PInf n = Inr PInf"
| "float_truediv NInf n = Inr NInf"
| "float_truediv FNaN n = Inr FNaN"

text \<open>
  The arithmetic of an element type, as \<open>mean_squared_error\<close> uses it: the value of the
  integer \<open>0\<close> that \<open>sum\<close> starts from, \<open>x - y\<close>, \<open>x ** 2\<close>, \<open>x + y\<close> and \<open>x / n\<close> for a positive
  Python int \<open>n\<close>.
\<close>

record 'a dtype =
  dt_zero :: 'a
  dt_sub :: "'a \<Rightarrow> 'a \<Rightarrow> 'a"
  dt_sq :: "'a \<Rightarrow> error + 'a"
  dt_add :: "'a \<Rightarrow> 'a \<Rightarrow> 'a"
  dt_truediv :: "'a \<Rightarrow> nat \<Rightarrow> error + pyfloat"

text \<open>
  Elements of a numpy array of dtype \<open>int64\<close>: subtraction, squaring and addition wrap
  around modulo \<open>2^64\<close> (with a warning); the division converts to \<open>float64\<close>.
\<close>

definition int64_dtype :: "64 word dtype" where
  "int64_dtype =
     \<lparr>dt_zero = 0, dt_sub = (\<lambda>x y. x - y), dt_sq = (\<lambda>x. Inr (x * x)),
      dt_add = (\<lambda>x y. x + y),
      dt_truediv = (\<lambda>x n. Inr (Fin (real_of_int (sint x) / real n)))\<rparr>"

text \<open>Elements of a numpy array of dtype \<open>float64\<close>.\<close>

definition float64_dtype :: "pyfloat dtype" where
  "float64_dtype =
     \<lparr>dt_zero = Fin 0, dt_sub = float_sub, dt_sq = float64_sq, dt_add = float_add,
      dt_truediv = float_truediv\<rparr>"

text \<open>Python floats, as in a list of floats.\<close>

definition pyfloat_dtype :: "pyfloat dtype" where
  "pyfloat_dtype =
     \<lparr>dt_zero = Fin 0, dt_sub = float_sub, dt_sq = pyfloat_sq, dt_add = float_add,
      dt_truediv = float_truediv\<rparr>"

text \<open>
  Python ints, as in a list of ints: exact arithmetic; the true division gives a float
  and raises OverflowError when the quotient is too large for one.
\<close>

definition pyint_dtype :: "int dtype" where
  "pyint_dtype =
     \<lparr>dt_zero = 0, dt_sub = (\<lambda>x y. x - y), dt_sq = (\<lambda>x. Inr (x * x)),
      dt_add = (\<lambda>x y. x + y),
      dt_truediv = (\<lambda>x n. if \<bar>real_of_int x / real n\<bar> > float_max then Inl OverflowError
                            else Inr (Fin (real_of_int x / real n)))\<rparr>"

text \<open>
  Python's builtin \<open>sum\<close> over a generator: a left fold that starts from \<open>0\<close>; an item
  that raises ends the sum with that exception.
\<close>

fun py_sum :: "'a dtype \<Rightarrow> 'a \<Rightarrow> (error + 'a) list \<Rightarrow> error + 'a" where
  "py_sum ops acc [] = Inr acc"
| "py_sum ops acc (Inl e # items) = Inl e"
| "py_sum ops acc (Inr v # items) = py_sum ops (dt_add ops acc v) items"

text \<open>
  \<^verbatim>\<open>
  if len(x_1) != len(x_2):
      raise ValueError("Input arrays must have the same length.")
  n = len(x_1)
  mse = sum((x_1[i] - x_2[i]) ** 2 for i in range(n)) / n
  return mse
  \<close>
  The subtraction, the square and the additions are those of the element type of the two
  sequences, here the same for both. The sum is computed before the division; with
  \<open>n = 0\<close> it is the integer \<open>0\<close>, and \<open>0 / 0\<close> raises ZeroDivisionError.
\<close>

definition mean_squared_error :: "'a dtype \<Rightarrow> 'a list \<Rightarrow> 'a list \<Rightarrow> error + pyfloat" where
  "mean_squared_error ops x_1 x_2 =
     (if length x_1 \<noteq> length x_2 then Inl ValueError
      else let n = length x_1 in
        case py_sum ops (dt_zero ops)
               (map (\<lambda>i. dt_sq ops (dt_sub ops (x_1 ! i) (x_2 ! i))) [0..<n]) of
          Inl e \<Rightarrow> Inl e
        | Inr s \<Rightarrow> if n = 0 then Inl ZeroDivisionError else dt_truediv ops s n)"

text \<open>
  The specification's reading: the mean of the element-wise squared differences.
\<close>

definition mse_spec :: "real list \<Rightarrow> real list \<Rightarrow> real" where
  "mse_spec xs ys = (\<Sum>(a, b)\<leftarrow>zip xs ys. (a - b) ^ 2) / real (length xs)"

subsection \<open>conditional\_expectation\<close>

text \<open>
  The slice \<open>xs[:T]\<close> of Python, for an integer \<open>T\<close>: a negative \<open>T\<close> counts from the end.
\<close>

definition py_slice_to :: "'a list \<Rightarrow> int \<Rightarrow> 'a list" where
  "py_slice_to xs T =
     (if 0 \<le> T then take (nat T) xs else take (nat (int (length xs) + T)) xs)"

text \<open>
  \<open>np.mean\<close> of a boolean array: the fraction of true entries, \<open>nan\<close> for an empty array.
\<close>

definition np_mean_bool :: "bool list \<Rightarrow> npfloat" where
  "np_mean_bool bs =
     (if bs = [] then NaN
      else Finite (real (length (filter (\<lambda>b. b) bs)) / real (length bs)))"

text \<open>
  \<^verbatim>\<open>
  simulated_spread = model[:T]
  conditional_expectation = np.mean(simulated_spread >= target_level)
  return conditional_expectation
  \<close>
\<close>

definition conditional_expectation ::
  "real list \<Rightarrow> real list \<Rightarrow> real \<Rightarrow> real \<Rightarrow> int \<Rightarrow> npfloat" where
  "conditional_expectation data model starting_point target_level T =
     (let simulated_spread = py_slice_to model T
      in np_mean_bool (map (\<lambda>v. v \<ge> target_level) simulated_spread))"

subsection \<open>expected\_time\_to\_target\<close>

text \<open>
  \<open>np.argmax\<close> of a boolean array: the position of the first maximal entry, that is the
  first \<open>True\<close> when there is one and position \<open>0\<close> otherwise. An empty array raises
  ValueError.
\<close>

fun first_true :: "bool list \<Rightarrow> nat option" where
  "first_true [] = None"
| "first_true (b # bs) = (if b then Some 0 else map_option Suc (first_true bs))"

definition np_argmax_bool :: "bool list \<Rightarrow> error + nat" where
  "np_argmax_bool bs =
     (if bs = [] then Inl ValueError
      else case first_true bs of Some i \<Rightarrow> Inr i | None \<Rightarrow> Inr 0)"

text \<open>
  \<^verbatim>\<open>
  time_to_target = np.argmax(model >= target_level)
  return time_to_target
  \<close>
\<close>

definition expected_time_to_target ::
  "real list \<Rightarrow> real list \<Rightarrow> real \<Rightarrow> real \<Rightarrow> int \<Rightarrow> error + nat" where
  "expected_time_to_target data model starting_point target_level max_periods =
     np_argmax_bool (map (\<lambda>v. v \<ge> target_level) model)"

section \<open>fit/models.py\<close>

text \<open>
  Sequencing of computations that may raise: the first exception is the result.
\<close>

definition rbind :: "error + 'a \<Rightarrow> ('a \<Rightarrow> error + 'b) \<Rightarrow> error + 'b" where
  "rbind r f = (case r of Inl e \<Rightarrow> Inl e | Inr a \<Rightarrow> f a)"

text \<open>
  The instance attributes of \<open>Model\<close>: \<open>_has_exact_density\<close>, \<open>_params\<close>, \<open>_positive\<close> and
  \<open>_default_sim_method\<close>. The parameter vector is \<open>None\<close> until it is first assigned.
\<close>

record model =
  m_has_exact_density :: bool
  m_params :: "real list option"
  m_positive :: bool
  m_default_sim_method :: string

text \<open>
  A subclass of \<open>Model\<close>: the two abstract methods it must supply and, for every other
  method, either the override it declares or \<open>None\<close> when it inherits the base-class
  implementation. Methods read the instance and do not write it.
\<close>

record model_class =
  cls_drift :: "model \<Rightarrow> real \<Rightarrow> real \<Rightarrow> error + real"
  cls_diffusion :: "model \<Rightarrow> real \<Rightarrow> real \<Rightarrow> error + real"
  cls_exact_density :: "(model \<Rightarrow> real \<Rightarrow> real \<Rightarrow> real \<Rightarrow> real \<Rightarrow> error + real) option"
  cls_exact_step :: "(model \<Rightarrow> real \<Rightarrow> real \<Rightarrow> real \<Rightarrow> real \<Rightarrow> error + real) option"
  cls_drift_x :: "(model \<Rightarrow> real \<Rightarrow> real \<Rightarrow> error + real) option"
  cls_drift_t :: "(model \<Rightarrow> real \<Rightarrow> real \<Rightarrow> error + real) option"
  cls_drift_xx :: "(model \<Rightarrow> real \<Rightarrow> real \<Rightarrow> error + real) option"
  cls_diffusion_x :: "(model \<Rightarrow> real \<Rightarrow> real \<Rightarrow> error + real) option"
  cls_diffusion_xx :: "(model \<Rightarrow> real \<Rightarrow> real \<Rightarrow> error + real) option"
  cls_set_is_positive :: "(model \<Rightarrow> real list \<Rightarrow> bool) option"

text \<open>
  \<^verbatim>\<open>
  def __init__(self, has_exact_density: bool = False, default_sim_method: str = "Milstein"):
      self._has_exact_density = has_exact_density
      self._params: Optional[np.ndarray] = None
      self._positive = False  # updated when params are set, indicates positivity of process
      self._default_sim_method = default_sim_method
  \<close>
\<close>

definition Model_init :: "bool \<Rightarrow> string \<Rightarrow> model" where
  "Model_init has_exact_density default_sim_method =
     \<lparr>m_has_exact_density = has_exact_density, m_params = None, m_positive = False,
      m_default_sim_method = default_sim_method\<rparr>"

subsection \<open>Base-class implementations\<close>

definition Model_set_is_positive :: "model \<Rightarrow> real list \<Rightarrow> bool" where
  "Model_set_is_positive self params = False"

definition Model_exact_density :: "model \<Rightarrow> real \<Rightarrow> real \<Rightarrow> real \<Rightarrow> real \<Rightarrow> error + real" where
  "Model_exact_density self x0 xt t0 dt = Inl NotImplementedError"

definition Model_exact_step :: "model \<Rightarrow> real \<Rightarrow> real \<Rightarrow> real \<Rightarrow> real \<Rightarrow> error + real" where
  "Model_exact_step self t dt x dZ = Inl NotImplementedError"

text \<open>
  The numerical derivatives call \<open>self.drift\<close> and \<open>self.diffusion\<close>, which dispatch to the
  subclass; the calls are made left to right.
\<close>

definition Model_drift_x :: "model_class \<Rightarrow> model \<Rightarrow> real \<Rightarrow> real \<Rightarrow> error + real" where
  "Model_drift_x cls self x t =
     (let h = 1 / 100000 in
      rbind (cls_drift cls self (x + h) t) (\<lambda>a.
      rbind (cls_drift cls self (x - h) t) (\<lambda>b.
      Inr ((a - b) / (2 * h)))))"

definition Model_drift_t :: "model_class \<Rightarrow> model \<Rightarrow> real \<Rightarrow> real \<Rightarrow> error + real" where
  "Model_drift_t cls self x t =
     (let h = 1 / 100000 in
      rbind (cls_drift cls self x (t + h)) (\<lambda>a.
      rbind (cls_drift cls self x t) (\<lambda>b.
      Inr ((a - b) / h))))"

definition Model_drift_xx :: "model_class \<Rightarrow> model \<Rightarrow> real \<Rightarrow> real \<Rightarrow> error + real" where
  "Model_drift_xx cls self x t =
     (let h = 1 / 100000 in
      rbind (cls_drift cls self (x + h) t) (\<lambda>a.
      rbind (cls_drift cls self x t) (\<lambda>b.
      rbind (cls_drift cls self (x - h) t) (\<lambda>c.
      Inr ((a - 2 * b + c) / (h * h))))))"

definition Model_diffusion_x :: "model_class \<Rightarrow> model \<Rightarrow> real \<Rightarrow> real \<Rightarrow> error + real" where
  "Model_diffusion_x cls self x t =
     (let h = 1 / 100000 in
      rbind (cls_diffusion cls self (x + h) t) (\<lambda>a.
      rbind (cls_diffusion cls self (x - h) t) (\<lambda>b.
      Inr ((a - b) / (2 * h)))))"

definition Model_diffusion_xx :: "model_class \<Rightarrow> model \<Rightarrow> real \<Rightarrow> real \<Rightarrow> error + real" where
  "Model_diffusion_xx cls self x t =
     (let h = 1 / 100000 in
      rbind (cls_diffusion cls self (x + h) t) (\<lambda>a.
      rbind (cls_diffusion cls self x t) (\<lambda>b.
      rbind (cls_diffusion cls self (x - h) t) (\<lambda>c.
      Inr ((a - 2 * b + c) / (h * h))))))"

subsection \<open>Method dispatch\<close>

definition set_is_positive :: "model_class \<Rightarrow> model \<Rightarrow> real list \<Rightarrow> bool" where
  "set_is_positive cls self params =
     (case cls_set_is_positive cls of None \<Rightarrow> Model_set_is_positive self params
      | Some f \<Rightarrow> f self params)"

definition exact_density :: "model_class \<Rightarrow> model \<Rightarrow> real \<Rightarrow> real \<Rightarrow> real \<Rightarrow> real \<Rightarrow> error + real" where
  "exact_density cls self x0 xt t0 dt =
     (case cls_exact_density cls of None \<Rightarrow> Model_exact_density self x0 xt t0 dt
      | Some f \<Rightarrow> f self x0 xt t0 dt)"

definition exact_step :: "model_class \<Rightarrow> model \<Rightarrow> real \<Rightarrow> real \<Rightarrow> real \<Rightarrow> real \<Rightarrow> error + real" where
  "exact_step cls self t dt x dZ =
     (case cls_exact_step cls of None \<Rightarrow> Model_exact_step self t dt x dZ
      | Some f \<Rightarrow> f self t dt x dZ)"

definition drift_x :: "model_class \<Rightarrow> model \<Rightarrow> real \<Rightarrow> real \<Rightarrow> error + real" where
  "drift_x cls self x t =
     (case cls_drift_x cls of None \<Rightarrow> Model_drift_x cls self x t | Some f \<Rightarrow> f self x t)"

definition drift_t :: "model_class \<Rightarrow> model \<Rightarrow> real \<Rightarrow> real \<Rightarrow> error + real" where
  "drift_t cls self x t =
     (case cls_drift_t cls of None \<Rightarrow> Model_drift_t cls self x t | Some f \<Rightarrow> f self x t)"

definition drift_xx :: "model_class \<Rightarrow> model \<Rightarrow> real \<Rightarrow> real \<Rightarrow> error + real" where
  "drift_xx cls self x t =
     (case cls_drift_xx cls of None \<Rightarrow> Model_drift_xx cls self x t | Some f \<Rightarrow> f self x t)"

definition diffusion_x :: "model_class \<Rightarrow> model \<Rightarrow> real \<Rightarrow> real \<Rightarrow> error + real" where
  "diffusion_x cls self x t =
     (case cls_diffusion_x cls of None \<Rightarrow> Model_diffusion_x cls self x t
      | Some f \<Rightarrow> f self x t)"

definition diffusion_xx :: "model_class \<Rightarrow> model \<Rightarrow> real \<Rightarrow> real \<Rightarrow> error + real" where
  "diffusion_xx cls self x t =
     (case cls_diffusion_xx cls of None \<Rightarrow> Model_diffusion_xx cls self x t
      | Some f \<Rightarrow> f self x t)"

subsection \<open>Properties and the params setter\<close>

text \<open>
  \<^verbatim>\<open>
  @params.setter
  def params(self, vals: np.ndarray):
      self._positive = self._set_is_positive(params=vals)
      self._params = vals
  \<close>
  The predicate runs on the instance as it is before the assignment.
\<close>

definition params_setter :: "model_class \<Rightarrow> model \<Rightarrow> real list \<Rightarrow> model" where
  "params_setter cls self vals =
     (let self1 = self\<lparr>m_positive := set_is_positive cls self vals\<rparr>
      in self1\<lparr>m_params := Some vals\<rparr>)"

definition params_getter :: "model \<Rightarrow> real list option" where
  "params_getter self = m_params self"

definition has_exact_density :: "model \<Rightarrow> bool" where
  "has_exact_density self = m_has_exact_density self"

definition is_positive :: "model \<Rightarrow> bool" where
  "is_positive self = m_positive self"

definition default_sim_method :: "model \<Rightarrow> string" where
  "default_sim_method self = m_default_sim_method self"

subsection \<open>The public operations of a model instance\<close>

datatype model_op =
    GetParams
  | SetParams "real list"
  | HasExactDensity
  | ExactDensity real real real real
  | ExactStep real real real real
  | Drift real real
  | Diffusion real real
  | DriftX real real
  | DriftT real real
  | DriftXX real real
  | DiffusionX real real
  | DiffusionXX real real
  | IsPositive
  | DefaultSimMethod

datatype pyvalue = VNone | VBool bool | VFloat real | VParams "real list option" | VStr string

text \<open>
  One call on an instance: the value returned or the exception raised, and the instance
  afterwards.
\<close>

fun call :: "model_class \<Rightarrow> model \<Rightarrow> model_op \<Rightarrow> (error + pyvalue) \<times> model" where
  "call cls self GetParams = (Inr (VParams (params_getter self)), self)"
| "call cls self (SetParams vals) = (Inr VNone, params_setter cls self vals)"
| "call cls self HasExactDensity = (Inr (VBool (has_exact_density self)), self)"
| "call cls self (ExactDensity x0 xt t0 dt) =
     (map_sum id VFloat (exact_density cls self x0 xt t0 dt), self)"
| "call cls self (ExactStep t dt x dZ) = (map_sum id VFloat (exact_step cls self t dt x dZ), self)"
| "call cls self (Drift x t) = (map_sum id VFloat (cls_drift cls self x t), self)"
| "call cls self (Diffusion x t) = (map_sum id VFloat (cls_diffusion cls self x t), self)"
| "call cls self (DriftX x t) = (map_sum id VFloat (drift_x cls self x t), self)"
| "call cls self (DriftT x t) = (map_sum id VFloat (drift_t cls self x t), self)"
| "call cls self (DriftXX x t) = (map_sum id VFloat (drift_xx cls self x t), self)"
| "call cls self (DiffusionX x t) = (map_sum id VFloat (diffusion_x cls self x t), self)"
| "call cls self (DiffusionXX x t) = (map_sum id VFloat (diffusion_xx cls self x t), self)"
| "call cls self IsPositive = (Inr (VBool (is_positive self)), self)"
| "call cls self DefaultSimMethod = (Inr (VStr (default_sim_method self)), self)"

text \<open>
  A sequence of calls on one instance; an exception raised by a call leaves the instance
  as that call left it, and the next call goes on from there.
\<close>

fun run :: "model_class \<Rightarrow> model \<Rightarrow> model_op list \<Rightarrow> model" where
  "run cls self [] = self"
| "run cls self (c # cs) = run cls (snd (call cls self c)) cs"

section \<open>fit/cir.py\<close>

text \<open>
  \<open>self._params[i]\<close> for a constant index \<open>i\<close>: subscripting \<open>None\<close> raises TypeError, an
  index past the end raises IndexError.
\<close>

definition params_item :: "model \<Rightarrow> nat \<Rightarrow> error + real" where
  "params_item self i =
     (case m_params self of None \<Rightarrow> Inl TypeError
      | Some ps \<Rightarrow> if i < length ps then Inr (ps ! i) else Inl IndexError)"

definition CIR_init :: model where
  "CIR_init = Model_init True ''Milstein''"

definition CIR_drift :: "model \<Rightarrow> real \<Rightarrow> real \<Rightarrow> error + real" where
  "CIR_drift self x t =
     rbind (params_item self 0) (\<lambda>p0.
     rbind (params_item self 1) (\<lambda>p1.
     Inr (p0 * (p1 - x))))"

definition CIR_diffusion :: "model \<Rightarrow> real \<Rightarrow> real \<Rightarrow> error + real" where
  "CIR_diffusion self x t =
     rbind (params_item self 2) (\<lambda>p2. Inr (p2 * sqrt x))"

text \<open>
  \<^verbatim>\<open>
  kappa, mu, sigma = self._params
  theta1 = kappa * mu; theta2 = kappa; theta3 = sigma
  et = np.exp(-theta2 * dt)
  c = 2 * theta2 / (theta3 ** 2 * (1 - et))
  u = c * x0 * et
  v = c * xt
  q = 2 * theta1 / theta3 ** 2 - 1
  z = 2 * np.sqrt(u * v)
  p = c * np.exp(-(u + v) + np.abs(z)) * (v / u) ** (q / 2)
  z = 2 * np.sqrt(u * v)
  p *= ive(q, z)
  return p
  \<close>
  Unpacking \<open>None\<close> raises TypeError, unpacking a vector whose length is not three raises
  ValueError. The library function \<open>scipy.special.ive\<close> is a parameter of the model.
\<close>

definition CIR_exact_density ::
  "(real \<Rightarrow> real \<Rightarrow> real) \<Rightarrow> model \<Rightarrow> real \<Rightarrow> real \<Rightarrow> real \<Rightarrow> real \<Rightarrow> error + real" where
  "CIR_exact_density ive self x0 xt t0 dt =
     (case m_params self of
        None \<Rightarrow> Inl TypeError
      | Some [kappa, mu, sigma] \<Rightarrow>
          (let theta1 = kappa * mu;
               theta2 = kappa;
               theta3 = sigma;
               et = exp (- theta2 * dt);
               c = 2 * theta2 / (theta3 ^ 2 * (1 - et));
               u = c * x0 * et;
               v = c * xt;
               q = 2 * theta1 / theta3 ^ 2 - 1;
               z = 2 * sqrt (u * v);
               p = c * exp (- (u + v) + \<bar>z\<bar>) * (v / u) powr (q / 2);
               z = 2 * sqrt (u * v);
               p = p * ive q z
           in Inr p)
      | Some _ \<Rightarrow> Inl ValueError)"

definition CIR_set_is_positive :: "model \<Rightarrow> real list \<Rightarrow> bool" where
  "CIR_set_is_positive self params = True"

definition CIR_drift_t :: "model \<Rightarrow> real \<Rightarrow> real \<Rightarrow> error + real" where
  "CIR_drift_t self x t = Inr 0"

definition CIR_class :: "(real \<Rightarrow> real \<Rightarrow> real) \<Rightarrow> model_class" where
  "CIR_class ive =
     \<lparr>cls_drift = CIR_drift, cls_diffusion = CIR_diffusion,
      cls_exact_density = Some (CIR_exact_density ive), cls_exact_step = None,
      cls_drift_x = None, cls_drift_t = Some CIR_drift_t, cls_drift_xx = None,
      cls_diffusion_x = None, cls_diffusion_xx = None,
      cls_set_is_positive = Some CIR_set_is_positive\<rparr>"

text \<open>
  The density as the specification writes it, in \<open>kappa\<close>, \<open>mu\<close> and \<open>sigma\<close>.
\<close>

definition cir_density_spec ::
  "(real \<Rightarrow> real \<Rightarrow> real) \<Rightarrow> real \<Rightarrow> real \<Rightarrow> real \<Rightarrow> real \<Rightarrow> real \<Rightarrow> real \<Rightarrow> real" where
  "cir_density_spec ive kappa mu sigma x0 xt dt =
     (let et = exp (- kappa * dt);
          c = 2 * kappa / (sigma ^ 2 * (1 - et));
          u = c * x0 * et;
          v = c * xt;
          q = 2 * kappa * mu / sigma ^ 2 - 1;
          z = 2 * sqrt (u * v)
      in c * exp (- (u + v) + \<bar>z\<bar>) * (v / u) powr (q / 2) * ive q z)"

section \<open>optm/minimizer.py\<close>



text \<open>One side of a bound: a finite value or a signed infinity.\<close>

datatype bound = NegInf | Bound real | PosInf








section \<open>Properties of utils/data\_utils.py\<close>

lemma py_sum_Inr: "py_sum ops acc (map Inr vs) = Inr (foldl (dt_add ops) acc vs)"
  by (induction vs arbitrary: acc) simp_all

lemma map_nth_zip:
  "length xs = length ys \<Longrightarrow>
     map (\<lambda>i. f (xs ! i) (ys ! i)) [0..<length xs] = map (\<lambda>(a, b). f a b) (zip xs ys)"
  by (rule nth_equalityI) simp_all

lemma foldl_add_sum_list: "foldl (+) a xs = a + sum_list (xs :: 'a :: monoid_add list)"
  by (induction xs arbitrary: a) (simp_all add: add.assoc)

text \<open>The exact sum of squared differences of two integer sequences.\<close>

lemma int64_sum_sq:
  "sum_list (map (\<lambda>(a, b). (a - b) * (a - b)) ps)
     = (word_of_int (\<Sum>(a, b)\<leftarrow>ps. (sint a - sint b) ^ 2) :: 64 word)"
  by (induction ps) (auto simp: power2_eq_square)

lemma int64_mse_value:
  assumes "length xs = length ys" and "xs \<noteq> []"
  shows "mean_squared_error int64_dtype xs ys
           = Inr (Fin (real_of_int (signed_take_bit 63
                         (\<Sum>(a, b)\<leftarrow>zip xs ys. (sint a - sint b) ^ 2)) / real (length xs)))"
proof -
  have items: "map (\<lambda>i. dt_sq int64_dtype (dt_sub int64_dtype (xs ! i) (ys ! i))) [0..<length xs]
                 = map Inr (map (\<lambda>(a, b). (a - b) * (a - b)) (zip xs ys))"
    using map_nth_zip [OF assms(1), of "\<lambda>a b. dt_sq int64_dtype (dt_sub int64_dtype a b)"]
    by (simp add: int64_dtype_def case_prod_unfold)
  have add: "dt_add int64_dtype = (+)" and zero: "dt_zero int64_dtype = 0"
    by (simp_all add: int64_dtype_def)
  let ?S = "\<Sum>(a, b)\<leftarrow>zip xs ys. (sint a - sint b) ^ 2"
  have sum: "py_sum int64_dtype (dt_zero int64_dtype)
          (map (\<lambda>i. dt_sq int64_dtype (dt_sub int64_dtype (xs ! i) (ys ! i))) [0..<length xs])
        = Inr (word_of_int ?S)"
    unfolding items py_sum_Inr add zero foldl_add_sum_list int64_sum_sq by simp
  have div: "dt_truediv int64_dtype (word_of_int ?S) (length xs)
               = Inr (Fin (real_of_int (signed_take_bit 63 ?S) / real (length xs)))"
    by (simp add: int64_dtype_def sint_sbintrunc' del: of_int_sint)
  from assms(2) have n: "length xs \<noteq> 0" by simp
  show ?thesis
    unfolding mean_squared_error_def Let_def sum using assms(1) n div by simp
qed

lemma sum_sq_real_of_int:
  "(\<Sum>(a, b)\<leftarrow>zip (map (\<lambda>w. real_of_int (f w)) xs) (map (\<lambda>w. real_of_int (f w)) ys). (a - b) ^ 2)
     = real_of_int (\<Sum>(a, b)\<leftarrow>zip xs ys. (f a - f b) ^ 2)"
proof (induction xs arbitrary: ys)
  case Nil
  then show ?case by simp
next
  case (Cons x xs)
  then show ?case by (cases ys) simp_all
qed

lemma sum_sq_nonneg: "0 \<le> (\<Sum>(a, b)\<leftarrow>ps. (f a - f b :: int) ^ 2)"
  by (induction ps) auto

lemma int64_mse_exact:
  assumes "length xs = length ys" and "xs \<noteq> []"
    and "(\<Sum>(a, b)\<leftarrow>zip xs ys. (sint a - sint b) ^ 2) < 2 ^ 63"
  shows "mean_squared_error int64_dtype xs ys
           = Inr (Fin (mse_spec (map (\<lambda>w. real_of_int (sint w)) xs)
                                (map (\<lambda>w. real_of_int (sint w)) ys)))"
proof -
  let ?S = "\<Sum>(a, b)\<leftarrow>zip xs ys. (sint a - sint b) ^ 2"
  have "0 \<le> ?S" by (rule sum_sq_nonneg)
  with assms(3) have "signed_take_bit 63 ?S = ?S"
    by (intro signed_take_bit_int_eq_self) simp_all
  then show ?thesis
    using int64_mse_value [OF assms(1,2)]
    by (simp add: mse_spec_def sum_sq_real_of_int del: of_int_sint)
qed

lemma float_max_ge_1: "1 \<le> float_max"
  by (simp add: float_max_def)

lemma float_result_Fin: "\<bar>r\<bar> \<le> float_max \<Longrightarrow> float_result r = Fin r"
  by (auto simp: float_result_def)

lemma float_sub_Fin: "\<bar>a - b\<bar> \<le> float_max \<Longrightarrow> float_sub (Fin a) (Fin b) = Fin (a - b)"
  by (simp add: float_sub_def float_result_Fin)

lemma float_add_Fin: "\<bar>a + b\<bar> \<le> float_max \<Longrightarrow> float_add (Fin a) (Fin b) = Fin (a + b)"
  by (simp add: float_result_Fin)

lemma sq_le_float_max:
  assumes "d * d \<le> float_max"
  shows "\<bar>d\<bar> \<le> float_max"
proof (cases "\<bar>d\<bar> \<le> 1")
  case True
  with float_max_ge_1 show ?thesis by linarith
next
  case False
  then have "\<bar>d\<bar> * 1 \<le> \<bar>d\<bar> * \<bar>d\<bar>"
    by (intro mult_left_mono) simp_all
  also have "\<bar>d\<bar> * \<bar>d\<bar> = d * d" by simp
  finally show ?thesis using assms by simp
qed

lemma sum_sq_real_nonneg: "0 \<le> (\<Sum>(a, b)\<leftarrow>ps. (a - b :: real) ^ 2)"
  by (induction ps) auto

lemma float_sum_exact:
  assumes add: "dt_add ops = float_add" and sub: "dt_sub ops = float_sub"
    and sq: "\<And>r. r * r \<le> float_max \<Longrightarrow> dt_sq ops (Fin r) = Inr (Fin (r * r))"
  shows "0 \<le> s \<Longrightarrow> s + (\<Sum>(a, b)\<leftarrow>ps. (a - b) ^ 2) \<le> float_max \<Longrightarrow>
         py_sum ops (Fin s) (map (\<lambda>(a, b). dt_sq ops (dt_sub ops (Fin a) (Fin b))) ps)
           = Inr (Fin (s + (\<Sum>(a, b)\<leftarrow>ps. (a - b) ^ 2)))"
proof (induction ps arbitrary: s)
  case Nil
  then show ?case by simp
next
  case (Cons p ps)
  obtain a b where p: "p = (a, b)" by (cases p)
  let ?rest = "\<Sum>(a, b)\<leftarrow>ps. (a - b) ^ 2"
  have rest: "0 \<le> ?rest" by (rule sum_sq_real_nonneg)
  have bound: "s + (a - b) * (a - b) + ?rest \<le> float_max"
    using Cons.prems(2) by (simp add: p power2_eq_square add.assoc)
  have d2: "(a - b) * (a - b) \<le> float_max"
    using bound rest Cons.prems(1) by linarith
  then have d: "\<bar>a - b\<bar> \<le> float_max" by (rule sq_le_float_max)
  have nn: "0 \<le> (a - b) * (a - b)" by simp
  have acc: "\<bar>s + (a - b) * (a - b)\<bar> \<le> float_max"
    using bound rest Cons.prems(1) nn by linarith
  have item: "dt_sq ops (dt_sub ops (Fin a) (Fin b)) = Inr (Fin ((a - b) * (a - b)))"
    by (simp add: sub float_sub_Fin [OF d] sq [OF d2])
  have step: "dt_add ops (Fin s) (Fin ((a - b) * (a - b))) = Fin (s + (a - b) * (a - b))"
    unfolding add by (rule float_add_Fin [OF acc])
  have "py_sum ops (Fin (s + (a - b) * (a - b)))
          (map (\<lambda>(a, b). dt_sq ops (dt_sub ops (Fin a) (Fin b))) ps)
        = Inr (Fin (s + (a - b) * (a - b) + ?rest))"
    using Cons.prems(1) nn bound by (intro Cons.IH) simp_all
  then show ?case
    by (simp add: p item step power2_eq_square add.assoc)
qed

lemma float_mse_exact:
  assumes add: "dt_add ops = float_add" and sub: "dt_sub ops = float_sub"
    and sq: "\<And>r. r * r \<le> float_max \<Longrightarrow> dt_sq ops (Fin r) = Inr (Fin (r * r))"
    and zero: "dt_zero ops = Fin 0" and div: "dt_truediv ops = float_truediv"
    and len: "length xs = length ys" and ne: "xs \<noteq> []"
    and bound: "(\<Sum>(a, b)\<leftarrow>zip xs ys. (a - b) ^ 2) \<le> float_max"
  shows "mean_squared_error ops (map Fin xs) (map Fin ys) = Inr (Fin (mse_spec xs ys))"
proof -
  let ?S = "\<Sum>(a, b)\<leftarrow>zip xs ys. (a - b) ^ 2"
  have len': "length (map Fin xs) = length (map Fin ys)" using len by simp
  have items: "map (\<lambda>i. dt_sq ops (dt_sub ops (map Fin xs ! i) (map Fin ys ! i)))
                 [0..<length (map Fin xs)]
               = map (\<lambda>(a, b). dt_sq ops (dt_sub ops (Fin a) (Fin b))) (zip xs ys)"
    using map_nth_zip [OF len', of "\<lambda>a b. dt_sq ops (dt_sub ops a b)"]
    by (simp add: zip_map_map case_prod_unfold)
  have sum: "py_sum ops (dt_zero ops)
               (map (\<lambda>i. dt_sq ops (dt_sub ops (map Fin xs ! i) (map Fin ys ! i)))
                 [0..<length (map Fin xs)])
             = Inr (Fin ?S)"
    unfolding items zero
    using float_sum_exact [OF add sub sq, of 0 "zip xs ys"] bound by simp
  from ne have n: "length (map Fin xs) \<noteq> 0" by simp
  show ?thesis
    unfolding mean_squared_error_def Let_def sum div
    using len n by (simp add: mse_spec_def)
qed

lemma float64_mse_exact:
  assumes "length xs = length ys" and "xs \<noteq> []"
    and "(\<Sum>(a, b)\<leftarrow>zip xs ys. (a - b) ^ 2) \<le> float_max"
  shows "mean_squared_error float64_dtype (map Fin xs) (map Fin ys) = Inr (Fin (mse_spec xs ys))"
proof (rule float_mse_exact [OF _ _ _ _ _ assms])
  fix r :: real
  assume "r * r \<le> float_max"
  then have "\<bar>r * r\<bar> \<le> float_max" by simp
  then show "dt_sq float64_dtype (Fin r) = Inr (Fin (r * r))"
    by (simp add: float64_dtype_def float_result_Fin)
qed (simp_all add: float64_dtype_def)

lemma pyfloat_mse_exact:
  assumes "length xs = length ys" and "xs \<noteq> []"
    and "(\<Sum>(a, b)\<leftarrow>zip xs ys. (a - b) ^ 2) \<le> float_max"
  shows "mean_squared_error pyfloat_dtype (map Fin xs) (map Fin ys) = Inr (Fin (mse_spec xs ys))"
proof (rule float_mse_exact [OF _ _ _ _ _ assms])
  fix r :: real
  assume "r * r \<le> float_max"
  then show "dt_sq pyfloat_dtype (Fin r) = Inr (Fin (r * r))"
    by (simp add: pyfloat_dtype_def)
qed (simp_all add: pyfloat_dtype_def)

lemma pyint_sum_sq:
  "sum_list (map (\<lambda>(a, b). (a - b) * (a - b)) ps) = (\<Sum>(a, b)\<leftarrow>ps. (a - b :: int) ^ 2)"
  by (simp add: power2_eq_square)

lemma pyint_mse_exact:
  assumes len: "length xs = length ys" and ne: "xs \<noteq> []"
    and bound: "real_of_int (\<Sum>(a, b)\<leftarrow>zip xs ys. (a - b) ^ 2) / real (length xs) \<le> float_max"
  shows "mean_squared_error pyint_dtype xs ys
           = Inr (Fin (mse_spec (map real_of_int xs) (map real_of_int ys)))"
proof -
  let ?S = "\<Sum>(a, b)\<leftarrow>zip xs ys. (a - b) ^ 2"
  have items: "map (\<lambda>i. dt_sq pyint_dtype (dt_sub pyint_dtype (xs ! i) (ys ! i))) [0..<length xs]
                 = map Inr (map (\<lambda>(a, b). (a - b) * (a - b)) (zip xs ys))"
    using map_nth_zip [OF len, of "\<lambda>a b. dt_sq pyint_dtype (dt_sub pyint_dtype a b)"]
    by (simp add: pyint_dtype_def case_prod_unfold)
  have add: "dt_add pyint_dtype = (+)" and zero: "dt_zero pyint_dtype = 0"
    by (simp_all add: pyint_dtype_def)
  have sum: "py_sum pyint_dtype (dt_zero pyint_dtype)
          (map (\<lambda>i. dt_sq pyint_dtype (dt_sub pyint_dtype (xs ! i) (ys ! i))) [0..<length xs])
        = Inr ?S"
    unfolding items py_sum_Inr add zero foldl_add_sum_list pyint_sum_sq by simp
  have "0 \<le> ?S" using sum_sq_nonneg [of "\<lambda>x. x" "zip xs ys"] by simp
  then have "0 \<le> real_of_int ?S / real (length xs)" by simp
  with bound have "\<not> \<bar>real_of_int ?S / real (length xs)\<bar> > float_max" by linarith
  then have div: "dt_truediv pyint_dtype ?S (length xs)
               = Inr (Fin (real_of_int ?S / real (length xs)))"
    by (simp add: pyint_dtype_def)
  from ne have n: "length xs \<noteq> 0" by simp
  have spec: "mse_spec (map real_of_int xs) (map real_of_int ys)
                = real_of_int ?S / real (length xs)"
    using sum_sq_real_of_int [of "\<lambda>x. x" xs ys] by (simp add: mse_spec_def)
  show ?thesis
    unfolding mean_squared_error_def Let_def sum spec using len n div by simp
qed

lemma first_true_None: "first_true bs = None \<longleftrightarrow> (\<forall>b \<in> set bs. \<not> b)"
  by (induction bs) auto

lemma first_true_Some:
  "first_true bs = Some i \<longleftrightarrow> i < length bs \<and> bs ! i \<and> (\<forall>j < i. \<not> bs ! j)"
proof (induction bs arbitrary: i)
  case Nil
  then show ?case by simp
next
  case (Cons b bs)
  show ?case
  proof (cases b)
    case True
    then show ?thesis by (cases i) auto
  next
    case False
    show ?thesis
    proof (cases i)
      case 0
      with False show ?thesis by auto
    next
      case (Suc k)
      have "(\<forall>j < Suc k. \<not> (b # bs) ! j) \<longleftrightarrow> (\<forall>j < k. \<not> bs ! j)"
        using False by (auto simp: less_Suc_eq_0_disj)
      with False Suc Cons.IH [of k] show ?thesis by auto
    qed
  qed
qed

lemma first_true_map_Some:
  "first_true (map P xs) = Some i \<longleftrightarrow> i < length xs \<and> P (xs ! i) \<and> (\<forall>j < i. \<not> P (xs ! j))"
proof -
  have "i < length xs \<Longrightarrow> (\<forall>j < i. \<not> map P xs ! j) \<longleftrightarrow> (\<forall>j < i. \<not> P (xs ! j))"
    by auto
  then show ?thesis
    unfolding first_true_Some by auto
qed

subsection \<open>mean\_squared\_error\<close>

text \<open>
  Claim C8, at three inputs of equal length. Two empty sequences: the call raises
  ZeroDivisionError. The \<open>int64\<close> arrays \<open>[2^32]\<close> and \<open>[0]\<close>: the square wraps around and the
  call returns \<open>0.0\<close>, not \<open>2^64\<close>. The Python floats \<open>[1e200]\<close> and \<open>[0.0]\<close>: the square
  raises OverflowError.
\<close>

theorem mean_squared_error_empty_wrap_overflow:
  "mean_squared_error int64_dtype [] [] = Inl ZeroDivisionError
   \<and> mean_squared_error int64_dtype [4294967296] [0] = Inr (Fin 0)
   \<and> mean_squared_error pyfloat_dtype [Fin (10 ^ 200)] [Fin 0] = Inl OverflowError"
  by (simp add: mean_squared_error_def int64_dtype_def pyfloat_dtype_def float_sub_def
      float_result_def float_max_def)

text \<open>
  Claim C8, amended: for two non-empty sequences of equal length, of \<open>int64\<close> array
  elements, Python ints, \<open>float64\<close> array elements or Python floats, whose sum of squared
  differences stays in the range of the element type (below \<open>2^63\<close> for \<open>int64\<close>, a mean of at
  most the largest double for Python ints, a sum of at most the largest double for
  floats), \<open>mean_squared_error\<close> returns the mean of the element-wise squared differences;
  for sequences of different lengths it raises ValueError (the shape mismatch), whatever
  the element type; and for \<open>[1,2,3]\<close> and \<open>[1,2,4]\<close> it returns \<open>1/3\<close>.
\<close>

theorem mean_squared_error_correct:
  "(length x_1 \<noteq> length x_2 \<longrightarrow> mean_squared_error ops x_1 x_2 = Inl ValueError)
   \<and> (length ws = length vs \<and> ws \<noteq> []
        \<and> (\<Sum>(a, b)\<leftarrow>zip ws vs. (sint a - sint b) ^ 2) < 2 ^ 63 \<longrightarrow>
      mean_squared_error int64_dtype ws vs
        = Inr (Fin (mse_spec (map (\<lambda>w. real_of_int (sint w)) ws)
                             (map (\<lambda>w. real_of_int (sint w)) vs))))
   \<and> (length ks = length ls \<and> ks \<noteq> []
        \<and> real_of_int (\<Sum>(a, b)\<leftarrow>zip ks ls. (a - b) ^ 2) / real (length ks) \<le> float_max \<longrightarrow>
      mean_squared_error pyint_dtype ks ls
        = Inr (Fin (mse_spec (map real_of_int ks) (map real_of_int ls))))
   \<and> (length xs = length ys \<and> xs \<noteq> []
        \<and> (\<Sum>(a, b)\<leftarrow>zip xs ys. (a - b) ^ 2) \<le> float_max \<longrightarrow>
      mean_squared_error float64_dtype (map Fin xs) (map Fin ys) = Inr (Fin (mse_spec xs ys))
      \<and> mean_squared_error pyfloat_dtype (map Fin xs) (map Fin ys) = Inr (Fin (mse_spec xs ys)))
   \<and> mean_squared_error int64_dtype [1, 2, 3] [1, 2, 4] = Inr (Fin (1 / 3))
   \<and> mean_squared_error pyint_dtype [1, 2, 3] [1, 2, 4] = Inr (Fin (1 / 3))
   \<and> mean_squared_error float64_dtype [Fin 1, Fin 2, Fin 3] [Fin 1, Fin 2, Fin 4]
        = Inr (Fin (1 / 3))
   \<and> mean_squared_error pyfloat_dtype [Fin 1, Fin 2, Fin 3] [Fin 1, Fin 2, Fin 4]
        = Inr (Fin (1 / 3))"
proof (intro conjI impI)
  assume "length x_1 \<noteq> length x_2"
  then show "mean_squared_error ops x_1 x_2 = Inl ValueError"
    by (simp add: mean_squared_error_def)
next
  assume "length ws = length vs \<and> ws \<noteq> []
            \<and> (\<Sum>(a, b)\<leftarrow>zip ws vs. (sint a - sint b) ^ 2) < 2 ^ 63"
  then show "mean_squared_error int64_dtype ws vs
        = Inr (Fin (mse_spec (map (\<lambda>w. real_of_int (sint w)) ws)
                             (map (\<lambda>w. real_of_int (sint w)) vs)))"
    by (intro int64_mse_exact) blast+
next
  assume "length ks = length ls \<and> ks \<noteq> []
        \<and> real_of_int (\<Sum>(a, b)\<leftarrow>zip ks ls. (a - b) ^ 2) / real (length ks) \<le> float_max"
  then show "mean_squared_error pyint_dtype ks ls
        = Inr (Fin (mse_spec (map real_of_int ks) (map real_of_int ls)))"
    by (intro pyint_mse_exact) blast+
next
  assume h: "length xs = length ys \<and> xs \<noteq> []
        \<and> (\<Sum>(a, b)\<leftarrow>zip xs ys. (a - b) ^ 2) \<le> float_max"
  then show "mean_squared_error float64_dtype (map Fin xs) (map Fin ys)
               = Inr (Fin (mse_spec xs ys))"
    by (intro float64_mse_exact) blast+
  from h show "mean_squared_error pyfloat_dtype (map Fin xs) (map Fin ys)
               = Inr (Fin (mse_spec xs ys))"
    by (intro pyfloat_mse_exact) blast+
next
  have sum: "(\<Sum>(a, b)\<leftarrow>zip [1, 2, 3] [1, 2, 4 :: real]. (a - b) ^ 2) = 1"
    by simp
  have spec: "mse_spec [1, 2, 3] [1, 2, 4] = 1 / 3"
    by (simp add: mse_spec_def)
  have le: "(\<Sum>(a, b)\<leftarrow>zip [1, 2, 3] [1, 2, 4 :: real]. (a - b) ^ 2) \<le> float_max"
    unfolding sum by (rule float_max_ge_1)
  show "mean_squared_error float64_dtype [Fin 1, Fin 2, Fin 3] [Fin 1, Fin 2, Fin 4]
          = Inr (Fin (1 / 3))"
    using float64_mse_exact [OF _ _ le] by (simp add: spec)
  show "mean_squared_error pyfloat_dtype [Fin 1, Fin 2, Fin 3] [Fin 1, Fin 2, Fin 4]
          = Inr (Fin (1 / 3))"
    using pyfloat_mse_exact [OF _ _ le] by (simp add: spec)
  have "real_of_int (\<Sum>(a, b)\<leftarrow>zip [1, 2, 3] [1, 2, 4 :: int]. (a - b) ^ 2)
          / real (length [1, 2, 3 :: int]) \<le> 1"
    by simp
  then have "real_of_int (\<Sum>(a, b)\<leftarrow>zip [1, 2, 3] [1, 2, 4 :: int]. (a - b) ^ 2)
          / real (length [1, 2, 3 :: int]) \<le> float_max"
    using float_max_ge_1 by (rule order_trans)
  then show "mean_squared_error pyint_dtype [1, 2, 3] [1, 2, 4] = Inr (Fin (1 / 3))"
    using pyint_mse_exact [of "[1, 2, 3]" "[1, 2, 4]"] by (simp add: spec [simplified])
  have "(\<Sum>(a, b)\<leftarrow>zip [1, 2, 3 :: 64 word] [1, 2, 4 :: 64 word]. (sint a - sint b) ^ 2) < 2 ^ 63"
    by simp
  then show "mean_squared_error int64_dtype [1, 2, 3] [1, 2, 4] = Inr (Fin (1 / 3))"
    using int64_mse_exact [of "[1, 2, 3]" "[1, 2, 4]"]
    by (simp add: mse_spec_def del: of_int_sint)
qed

theorem mean_squared_error_correct_witness:
  "length [1 :: 64 word] \<noteq> length [1, 2 :: 64 word]
   \<and> mean_squared_error int64_dtype [1] [1, 2] = Inl ValueError
   \<and> (length [1, 2, 3 :: 64 word] = length [1, 2, 4 :: 64 word] \<and> [1, 2, 3 :: 64 word] \<noteq> []
        \<and> (\<Sum>(a, b)\<leftarrow>zip [1, 2, 3 :: 64 word] [1, 2, 4 :: 64 word]. (sint a - sint b) ^ 2) < 2 ^ 63)
   \<and> mean_squared_error int64_dtype [1, 2, 3] [1, 2, 4]
        = Inr (Fin (mse_spec (map (\<lambda>w. real_of_int (sint w)) [1, 2, 3 :: 64 word])
                             (map (\<lambda>w. real_of_int (sint w)) [1, 2, 4 :: 64 word])))
   \<and> (length [1, 2, 3 :: int] = length [1, 2, 4 :: int] \<and> [1, 2, 3 :: int] \<noteq> []
        \<and> real_of_int (\<Sum>(a, b)\<leftarrow>zip [1, 2, 3 :: int] [1, 2, 4 :: int]. (a - b) ^ 2)
            / real (length [1, 2, 3 :: int]) \<le> float_max)
   \<and> mean_squared_error pyint_dtype [1, 2, 3] [1, 2, 4]
        = Inr (Fin (mse_spec (map real_of_int [1, 2, 3]) (map real_of_int [1, 2, 4])))
   \<and> (length [1, 2, 3 :: real] = length [1, 2, 4 :: real] \<and> [1, 2, 3 :: real] \<noteq> []
        \<and> (\<Sum>(a, b)\<leftarrow>zip [1, 2, 3 :: real] [1, 2, 4 :: real]. (a - b) ^ 2) \<le> float_max)
   \<and> mean_squared_error float64_dtype (map Fin [1, 2, 3]) (map Fin [1, 2, 4])
        = Inr (Fin (mse_spec [1, 2, 3] [1, 2, 4]))
   \<and> mean_squared_error pyfloat_dtype (map Fin [1, 2, 3]) (map Fin [1, 2, 4])
        = Inr (Fin (mse_spec [1, 2, 3] [1, 2, 4]))"
proof -
  note th = mean_squared_error_correct
    [of "[1 :: 64 word]" "[1, 2 :: 64 word]" int64_dtype
        "[1, 2, 3 :: 64 word]" "[1, 2, 4 :: 64 word]"
        "[1, 2, 3 :: int]" "[1, 2, 4 :: int]" "[1, 2, 3 :: real]" "[1, 2, 4 :: real]"]
  have h0: "length [1 :: 64 word] \<noteq> length [1, 2 :: 64 word]"
    by simp
  have h1: "length [1, 2, 3 :: 64 word] = length [1, 2, 4 :: 64 word] \<and> [1, 2, 3 :: 64 word] \<noteq> []
        \<and> (\<Sum>(a, b)\<leftarrow>zip [1, 2, 3 :: 64 word] [1, 2, 4 :: 64 word]. (sint a - sint b) ^ 2) < 2 ^ 63"
    by simp
  have "real_of_int (\<Sum>(a, b)\<leftarrow>zip [1, 2, 3 :: int] [1, 2, 4 :: int]. (a - b) ^ 2)
            / real (length [1, 2, 3 :: int]) \<le> 1"
    by simp
  then have "real_of_int (\<Sum>(a, b)\<leftarrow>zip [1, 2, 3 :: int] [1, 2, 4 :: int]. (a - b) ^ 2)
            / real (length [1, 2, 3 :: int]) \<le> float_max"
    using float_max_ge_1 by (rule order_trans)
  then have h2: "length [1, 2, 3 :: int] = length [1, 2, 4 :: int] \<and> [1, 2, 3 :: int] \<noteq> []
        \<and> real_of_int (\<Sum>(a, b)\<leftarrow>zip [1, 2, 3 :: int] [1, 2, 4 :: int]. (a - b) ^ 2)
            / real (length [1, 2, 3 :: int]) \<le> float_max"
    by simp
  have "(\<Sum>(a, b)\<leftarrow>zip [1, 2, 3 :: real] [1, 2, 4 :: real]. (a - b) ^ 2) \<le> 1"
    by simp
  then have "(\<Sum>(a, b)\<leftarrow>zip [1, 2, 3 :: real] [1, 2, 4 :: real]. (a - b) ^ 2) \<le> float_max"
    using float_max_ge_1 by (rule order_trans)
  then have h3: "length [1, 2, 3 :: real] = length [1, 2, 4 :: real] \<and> [1, 2, 3 :: real] \<noteq> []
        \<and> (\<Sum>(a, b)\<leftarrow>zip [1, 2, 3 :: real] [1, 2, 4 :: real]. (a - b) ^ 2) \<le> float_max"
    by simp
  from th h0 h1 h2 h3 show ?thesis by blast
qed

subsection \<open>expected\_time\_to\_target\<close>

text \<open>
  What the function computes: on an empty model sequence it raises ValueError; on a
  non-empty one it returns the index of the first value at or above the target, and \<open>0\<close>
  when no value reaches the target or when the first value already does. The horizon is
  not read.
\<close>

lemma expected_time_to_target_empty:
  "expected_time_to_target data [] starting_point target_level max_periods = Inl ValueError"
  by (simp add: expected_time_to_target_def np_argmax_bool_def)

lemma expected_time_to_target_first_hit:
  assumes "model \<noteq> []"
  shows "\<exists>k. expected_time_to_target data model starting_point target_level max_periods = Inr k
           \<and> ((\<exists>i < length model. model ! i \<ge> target_level) \<longrightarrow>
                 k < length model \<and> model ! k \<ge> target_level
                 \<and> (\<forall>j < k. model ! j < target_level))
           \<and> ((\<forall>i < length model. model ! i < target_level) \<longrightarrow> k = 0)
           \<and> (model ! 0 \<ge> target_level \<longrightarrow> k = 0)"
proof -
  let ?bs = "map (\<lambda>v. v \<ge> target_level) model"
  let ?r = "expected_time_to_target data model starting_point target_level max_periods"
  show ?thesis
  proof (cases "first_true ?bs")
    case None
    then have no: "\<And>i. i < length model \<Longrightarrow> model ! i < target_level"
      by (simp add: first_true_None not_le)
    have r: "?r = Inr 0"
      using None assms by (simp add: expected_time_to_target_def np_argmax_bool_def)
    have "\<not> (\<exists>i < length model. model ! i \<ge> target_level)"
      using no by (auto simp: not_le)
    with r show ?thesis by blast
  next
    case (Some k)
    then have k: "k < length model" "model ! k \<ge> target_level"
      and before: "\<And>j. j < k \<Longrightarrow> model ! j < target_level"
      by (simp_all add: first_true_map_Some not_le)
    have r: "?r = Inr k"
      using Some assms by (simp add: expected_time_to_target_def np_argmax_bool_def)
    have zero: "model ! 0 \<ge> target_level \<longrightarrow> k = 0"
    proof
      assume "model ! 0 \<ge> target_level"
      then have "\<not> 0 < k" using before [of 0] by auto
      then show "k = 0" by simp
    qed
    have never: "(\<forall>i < length model. model ! i < target_level) \<longrightarrow> k = 0"
      using k by auto
    from r k before zero never show ?thesis by blast
  qed
qed

lemma expected_time_to_target_any_horizon:
  "expected_time_to_target data model starting_point target_level max_periods
     = expected_time_to_target data model starting_point target_level max_periods'"
  by (simp add: expected_time_to_target_def)


subsection \<open>conditional\_expectation\<close>

text \<open>
  Claim C10: the result of \<open>conditional_expectation\<close> depends only on the model sequence,
  the target level and \<open>T\<close>; two calls that differ only in \<open>data\<close> and \<open>starting_point\<close>
  return the same value.
\<close>

theorem conditional_expectation_ignores_data:
  "conditional_expectation data1 model starting_point1 target_level T
     = conditional_expectation data2 model starting_point2 target_level T"
  by (simp add: conditional_expectation_def)

section \<open>Properties of fit/models.py and fit/cir.py\<close>

lemma rbind_Inr: "rbind (Inr a) f = f a"
  by (simp add: rbind_def)

lemma rbind_Inl: "rbind (Inl e) f = Inl e"
  by (simp add: rbind_def)

text \<open>
  A class that does not override a derivative runs the base-class implementation.
\<close>

lemma derivatives_inherited:
  "cls_drift_x cls = None \<Longrightarrow> drift_x cls self x t = Model_drift_x cls self x t"
  "cls_drift_t cls = None \<Longrightarrow> drift_t cls self x t = Model_drift_t cls self x t"
  "cls_drift_xx cls = None \<Longrightarrow> drift_xx cls self x t = Model_drift_xx cls self x t"
  "cls_diffusion_x cls = None \<Longrightarrow> diffusion_x cls self x t = Model_diffusion_x cls self x t"
  "cls_diffusion_xx cls = None \<Longrightarrow> diffusion_xx cls self x t = Model_diffusion_xx cls self x t"
  by (simp_all add: drift_x_def drift_t_def drift_xx_def diffusion_x_def diffusion_xx_def)

subsection \<open>The CIR transition density\<close>

text \<open>
  Claim C1: for every parameter vector \<open>[kappa, mu, sigma]\<close> and all \<open>x0\<close>, \<open>xt\<close>, \<open>t0\<close>, \<open>dt\<close>,
  \<open>CIR.exact_density\<close> returns the reparametrised formula of the specification,
  \<open>c * exp (-(u+v) + |z|) * (v/u)^(q/2) * ive q z\<close> with \<open>et\<close>, \<open>c\<close>, \<open>u\<close>, \<open>v\<close>, \<open>q\<close>, \<open>z\<close> as the
  specification defines them; the Bessel function enters only through the scaled routine
  \<open>ive\<close>, called once at \<open>(q, z)\<close>. The same holds for the call dispatched through the class.
\<close>

theorem CIR_exact_density_formula:
  "CIR_exact_density ive (self\<lparr>m_params := Some [kappa, mu, sigma]\<rparr>) x0 xt t0 dt
     = Inr (cir_density_spec ive kappa mu sigma x0 xt dt)
   \<and> exact_density (CIR_class ive) (self\<lparr>m_params := Some [kappa, mu, sigma]\<rparr>) x0 xt t0 dt
     = Inr (cir_density_spec ive kappa mu sigma x0 xt dt)"
  by (simp add: CIR_exact_density_def cir_density_spec_def exact_density_def CIR_class_def
      Let_def mult.assoc)

subsection \<open>Numerical derivatives\<close>

text \<open>
  Claim C3: for every model whose drift and diffusion return values, the base-class
  numerical derivatives use the step \<open>h = 1e-5\<close> and compute
  \<open>drift_x = (drift(x+h,t) - drift(x-h,t)) / (2h)\<close>,
  \<open>drift_t = (drift(x,t+h) - drift(x,t)) / h\<close>,
  \<open>drift_xx = (drift(x+h,t) - 2 drift(x,t) + drift(x-h,t)) / h^2\<close>, and \<open>diffusion_x\<close>,
  \<open>diffusion_xx\<close> are the two spatial formulas with the diffusion in place of the drift.
\<close>

theorem Model_numerical_derivatives:
  assumes "\<forall>y u. cls_drift cls self y u = Inr (mu y u)"
    and "\<forall>y u. cls_diffusion cls self y u = Inr (sg y u)"
  shows "Model_drift_x cls self x t
           = Inr ((mu (x + 1 / 100000) t - mu (x - 1 / 100000) t) / (2 * (1 / 100000)))
       \<and> Model_drift_t cls self x t
           = Inr ((mu x (t + 1 / 100000) - mu x t) / (1 / 100000))
       \<and> Model_drift_xx cls self x t
           = Inr ((mu (x + 1 / 100000) t - 2 * mu x t + mu (x - 1 / 100000) t)
                  / (1 / 100000) ^ 2)
       \<and> Model_diffusion_x cls self x t
           = Inr ((sg (x + 1 / 100000) t - sg (x - 1 / 100000) t) / (2 * (1 / 100000)))
       \<and> Model_diffusion_xx cls self x t
           = Inr ((sg (x + 1 / 100000) t - 2 * sg x t + sg (x - 1 / 100000) t)
                  / (1 / 100000) ^ 2)"
proof (intro conjI)
  show "Model_drift_x cls self x t
          = Inr ((mu (x + 1 / 100000) t - mu (x - 1 / 100000) t) / (2 * (1 / 100000)))"
    using assms(1) by (simp add: Model_drift_x_def rbind_Inr Let_def)
  show "Model_drift_t cls self x t = Inr ((mu x (t + 1 / 100000) - mu x t) / (1 / 100000))"
    using assms(1) by (simp add: Model_drift_t_def rbind_Inr Let_def)
  show "Model_drift_xx cls self x t
          = Inr ((mu (x + 1 / 100000) t - 2 * mu x t + mu (x - 1 / 100000) t)
                 / (1 / 100000) ^ 2)"
    using assms(1) by (simp add: Model_drift_xx_def rbind_Inr Let_def power2_eq_square)
  show "Model_diffusion_x cls self x t
          = Inr ((sg (x + 1 / 100000) t - sg (x - 1 / 100000) t) / (2 * (1 / 100000)))"
    using assms(2) by (simp add: Model_diffusion_x_def rbind_Inr Let_def)
  show "Model_diffusion_xx cls self x t
          = Inr ((sg (x + 1 / 100000) t - 2 * sg x t + sg (x - 1 / 100000) t)
                 / (1 / 100000) ^ 2)"
    using assms(2) by (simp add: Model_diffusion_xx_def rbind_Inr Let_def power2_eq_square)
qed

theorem Model_numerical_derivatives_witness:
  "(\<forall>y u. cls_drift (CIR_class (\<lambda>q z. 0))
             (params_setter (CIR_class (\<lambda>q z. 0)) CIR_init [1, 2, 3]) y u = Inr (1 * (2 - y)))
   \<and> (\<forall>y u. cls_diffusion (CIR_class (\<lambda>q z. 0))
             (params_setter (CIR_class (\<lambda>q z. 0)) CIR_init [1, 2, 3]) y u = Inr (3 * sqrt y))
   \<and> Model_drift_x (CIR_class (\<lambda>q z. 0))
        (params_setter (CIR_class (\<lambda>q z. 0)) CIR_init [1, 2, 3]) 1 0 = Inr (- 1)
   \<and> Model_drift_t (CIR_class (\<lambda>q z. 0))
        (params_setter (CIR_class (\<lambda>q z. 0)) CIR_init [1, 2, 3]) 1 0 = Inr 0
   \<and> Model_drift_xx (CIR_class (\<lambda>q z. 0))
        (params_setter (CIR_class (\<lambda>q z. 0)) CIR_init [1, 2, 3]) 1 0 = Inr 0
   \<and> Model_diffusion_x (CIR_class (\<lambda>q z. 0))
        (params_setter (CIR_class (\<lambda>q z. 0)) CIR_init [1, 2, 3]) 4 0
        = Inr ((3 * sqrt (4 + 1 / 100000) - 3 * sqrt (4 - 1 / 100000)) / (2 * (1 / 100000)))"
proof -
  let ?C = "CIR_class (\<lambda>q z. 0)"
  let ?s = "params_setter ?C CIR_init [1, 2, 3]"
  have d: "\<forall>y u. cls_drift ?C ?s y u = Inr (1 * (2 - y))"
    by (simp add: CIR_class_def CIR_drift_def params_item_def params_setter_def rbind_def)
  have g: "\<forall>y u. cls_diffusion ?C ?s y u = Inr (3 * sqrt y)"
    by (simp add: CIR_class_def CIR_diffusion_def params_item_def params_setter_def rbind_def)
  note th = Model_numerical_derivatives [OF d g]
  have a: "Model_drift_x ?C ?s 1 0 = Inr (- 1)"
    using th [of 1 0] by simp
  have b: "Model_drift_t ?C ?s 1 0 = Inr 0"
    using th [of 1 0] by simp
  have c: "Model_drift_xx ?C ?s 1 0 = Inr 0"
    using th [of 1 0] by simp
  have e: "Model_diffusion_x ?C ?s 4 0
             = Inr ((3 * sqrt (4 + 1 / 100000) - 3 * sqrt (4 - 1 / 100000)) / (2 * (1 / 100000)))"
    using th [of 4 0] by blast
  from d g a b c e show ?thesis by blast
qed

subsection \<open>The positivity flag\<close>

text \<open>
  Claim C4: for every model and every vector \<open>v\<close>, assigning \<open>params\<close> applies the model's
  positivity predicate to \<open>v\<close> and stores the result as the flag, so that \<open>is_positive\<close> read
  right after the assignment is the predicate at \<open>v\<close> (after a second assignment, the
  predicate at the second vector); every other operation leaves the flag as it was.
\<close>

theorem params_setter_updates_flag:
  "m_positive (snd (call cls self c))
     = (case c of SetParams v \<Rightarrow> set_is_positive cls self v | _ \<Rightarrow> m_positive self)
   \<and> is_positive (params_setter cls self v) = set_is_positive cls self v
   \<and> params_getter (params_setter cls self v) = Some v
   \<and> is_positive (params_setter cls (params_setter cls self v) w)
     = set_is_positive cls (params_setter cls self v) w"
  by (cases c) (simp_all add: params_setter_def is_positive_def params_getter_def)

text \<open>
  Claim C5, at a freshly constructed instance: \<open>CIR()\<close> has had no parameters assigned,
  and reading \<open>is_positive\<close> on it returns false.
\<close>

theorem CIR_fresh_instance_not_positive:
  "is_positive CIR_init = False"
  by (simp add: is_positive_def CIR_init_def Model_init_def)

lemma CIR_set_is_positive_True: "set_is_positive (CIR_class ive) self v"
  by (simp add: set_is_positive_def CIR_class_def CIR_set_is_positive_def)

lemma CIR_call_keeps_positive:
  "m_positive self \<Longrightarrow> m_positive (snd (call (CIR_class ive) self c))"
  by (cases c) (simp_all add: params_setter_def CIR_set_is_positive_True)

lemma CIR_run_keeps_positive:
  "m_positive self \<Longrightarrow> m_positive (run (CIR_class ive) self cs)"
  by (induction cs arbitrary: self) (simp_all add: CIR_call_keeps_positive)

text \<open>
  Claim C5, amended: once \<open>params\<close> has been assigned on a CIR instance, whatever the
  parameter values (a zero \<open>kappa\<close> included), \<open>is_positive\<close> is true, right after the
  assignment and after any further operations.
\<close>

theorem CIR_positive_once_params_set:
  assumes "SetParams v \<in> set cs"
  shows "is_positive (run (CIR_class ive) self cs)
         \<and> is_positive (params_setter (CIR_class ive) self v)"
proof
  from assms show "is_positive (run (CIR_class ive) self cs)"
  proof (induction cs arbitrary: self)
    case Nil
    then show ?case by simp
  next
    case (Cons c cs)
    show ?case
    proof (cases "c = SetParams v")
      case True
      then have "m_positive (snd (call (CIR_class ive) self c))"
        by (simp add: params_setter_def CIR_set_is_positive_True)
      then show ?thesis
        using CIR_run_keeps_positive by (simp add: is_positive_def)
    next
      case False
      with Cons.prems have "SetParams v \<in> set cs" by simp
      then show ?thesis using Cons.IH by simp
    qed
  qed
  show "is_positive (params_setter (CIR_class ive) self v)"
    by (simp add: params_setter_def is_positive_def CIR_set_is_positive_True)
qed

theorem CIR_positive_once_params_set_witness:
  "SetParams [0, 1, 1] \<in> set [IsPositive, SetParams [0, 1, 1], DriftT 1 0]
   \<and> is_positive (run (CIR_class (\<lambda>q z. 0)) CIR_init
                      [IsPositive, SetParams [0, 1, 1], DriftT 1 0])
   \<and> is_positive (params_setter (CIR_class (\<lambda>q z. 0)) CIR_init [0, 1, 1])"
proof -
  have h: "SetParams [0, 1, 1] \<in> set [IsPositive, SetParams [0, 1, 1], DriftT 1 0]"
    by simp
  from CIR_positive_once_params_set [OF h, of "\<lambda>q z. 0" CIR_init] h show ?thesis
    by blast
qed

subsection \<open>Optional capabilities\<close>

text \<open>
  Claim C6: on every model that does not override \<open>exact_density\<close>, calling it with any
  arguments raises NotImplementedError; on every model that does not override \<open>exact_step\<close>,
  CIR included, calling it raises NotImplementedError; neither call changes the instance.
\<close>

theorem optional_capabilities_not_implemented:
  "(cls_exact_density cls = None \<longrightarrow>
      call cls self (ExactDensity x0 xt t0 dt) = (Inl NotImplementedError, self))
   \<and> (cls_exact_step cls = None \<longrightarrow>
      call cls self (ExactStep t dt' x dZ) = (Inl NotImplementedError, self))
   \<and> call (CIR_class ive) self (ExactStep t dt' x dZ) = (Inl NotImplementedError, self)"
  by (simp add: exact_density_def exact_step_def Model_exact_density_def
      Model_exact_step_def CIR_class_def)

theorem optional_capabilities_not_implemented_witness:
  "cls_exact_density ((CIR_class (\<lambda>q z. 0))\<lparr>cls_exact_density := None\<rparr>) = None
   \<and> call ((CIR_class (\<lambda>q z. 0))\<lparr>cls_exact_density := None\<rparr>) (Model_init False ''Milstein'')
        (ExactDensity 1 2 0 1) = (Inl NotImplementedError, Model_init False ''Milstein'')
   \<and> cls_exact_step ((CIR_class (\<lambda>q z. 0))\<lparr>cls_exact_density := None\<rparr>) = None
   \<and> call ((CIR_class (\<lambda>q z. 0))\<lparr>cls_exact_density := None\<rparr>) (Model_init False ''Milstein'')
        (ExactStep 0 1 2 3) = (Inl NotImplementedError, Model_init False ''Milstein'')"
proof -
  let ?C = "(CIR_class (\<lambda>q z. 0))\<lparr>cls_exact_density := None\<rparr>"
  have h1: "cls_exact_density ?C = None" by simp
  have h2: "cls_exact_step ?C = None" by (simp add: CIR_class_def)
  from optional_capabilities_not_implemented
         [of ?C "Model_init False ''Milstein''" 1 2 0 1 0 1 2 3 "\<lambda>q z. 0"] h1 h2
  show ?thesis by blast
qed

section \<open>Properties of optm/minimizer.py\<close>



end
